theory Spec2Isabelle
  imports Complex_Main "HOL-Library.Sublist" "HOL-Library.Word"
begin

section \<open>Notebook utilities of fed\_rf\_mk: a shallow embedding of utils.py\<close>

text \<open>
  The module \<^verbatim>\<open>src/fed_rf_mk/utils.py\<close> is a set of short helpers: request status helpers
  over a dictionary of datasite clients, model persistence helpers over \<^verbatim>\<open>BytesIO\<close> buffers
  and the local file system, and two plotting helpers. Each helper is embedded as a HOL
  function. Whatever a helper mutates (the datasites, the file system, a buffer, the
  figure) is passed in and returned; every exception the helper can raise on the modelled
  state is a value \<open>Inl e\<close> of a sum type.
\<close>

subsection \<open>Exceptions\<close>

datatype py_error =
    IndexError
  | KeyError
  | UnboundLocalError
  | FileNotFoundError
  | FileExistsError
  | IsADirectoryError
  | NotADirectoryError
  | AttributeError
  | ValueError
  | OSError
  | LoadError

subsection \<open>Strings: \<^verbatim>\<open>str.replace\<close> and \<^verbatim>\<open>str.lower\<close>\<close>

text \<open>
  A Python \<^verbatim>\<open>str\<close> is a sequence of code points. It is modelled as a \<open>string\<close>, whose
  characters are the code points below 256; a \<^verbatim>\<open>str\<close> with a code point from 256 on has no
  counterpart in the model. On those code points \<^verbatim>\<open>str.lower\<close> works character by
  character: the upper case letters are \<^verbatim>\<open>A\<close> to \<^verbatim>\<open>Z\<close> (65 to 90) and 192 to 222 without
  the multiplication sign 215, and the lower case letter is 32 code points further.
\<close>

definition lower_char :: "char \<Rightarrow> char" where
  "lower_char c =
     (let n = of_char c :: nat
      in if (65 \<le> n \<and> n \<le> 90) \<or> (192 \<le> n \<and> n \<le> 222 \<and> n \<noteq> 215) then char_of (n + 32)
         else c)"

definition lower :: "string \<Rightarrow> string" where
  "lower s = map lower_char s"

text \<open>
  \<^verbatim>\<open>s.replace(old, new)\<close>: scanning from the left, every non-overlapping occurrence of
  \<open>old\<close> is replaced by \<open>new\<close>; an empty \<open>old\<close> matches before every character and at
  the end.
\<close>

function replace :: "string \<Rightarrow> string \<Rightarrow> string \<Rightarrow> string" where
  "replace old new [] = (if old = [] then new else [])"
| "replace old new (c # cs) =
     (if old = [] then new @ c # replace old new cs
      else if prefix old (c # cs) then new @ replace old new (drop (length old) (c # cs))
      else c # replace old new cs)"
  by pat_completeness auto
termination
  by (relation "measure (\<lambda>(old, new, s). length s)") (auto simp: neq_Nil_conv)

subsection \<open>The canonical model file name\<close>

text \<open>
  \<^verbatim>\<open>
  def get_model_file(datasite_name: str) -> str:
      return f"{datasite_name.replace('.', '').replace(' ', '_').lower()}_model.jbl"
  \<close>
\<close>

definition get_model_file :: "string \<Rightarrow> string" where
  "get_model_file datasite_name =
     lower (replace '' '' ''_'' (replace ''.'' '''' datasite_name)) @ ''_model.jbl''"


subsection \<open>Datasites and their code requests\<close>

text \<open>
  The datasite clients belong to the external framework, which is not part of the
  repository. What the helpers use of a client is its list of submitted code requests
  \<^verbatim>\<open>datasite.code\<close>, and of a request its status: the property \<^verbatim>\<open>status.approved\<close> and
  the calls \<^verbatim>\<open>status.approve()\<close> and \<^verbatim>\<open>status.get_status_message()\<close>. The two calls are
  parameters of the helpers that make them: each returns or raises, as the installed
  framework decides. The registry is a Python \<^verbatim>\<open>dict\<close>: an association list in insertion
  order.
\<close>

datatype status = Pending | Approved | Rejected

record request =
  request_name :: string
  status :: status

record datasite =
  code :: "request list"

type_synonym registry = "(string \<times> datasite) list"

definition approved :: "status \<Rightarrow> bool" where
  "approved st = (st = Approved)"

text \<open>
  Two frameworks to run the helpers on: one whose \<^verbatim>\<open>approve()\<close> moves the request to the
  approved status, and one whose status object has no such method, so that the call
  raises \<^verbatim>\<open>AttributeError\<close>. \<open>plain_message\<close> gives the status itself as its message.
\<close>

definition approve_status :: "request \<Rightarrow> py_error + request" where
  "approve_status r = Inr (r\<lparr>status := Approved\<rparr>)"

definition no_approve :: "request \<Rightarrow> py_error + request" where
  "no_approve r = Inl AttributeError"

definition plain_message :: "status \<Rightarrow> py_error + status" where
  "plain_message st = Inr st"

text \<open>
  \<^verbatim>\<open>xs[i]\<close> on a Python list: a negative index counts from the end, and an index outside
  the list raises \<^verbatim>\<open>IndexError\<close>. \<open>position n i\<close> is the place the index \<open>i\<close> denotes in
  a list of length \<open>n\<close>.
\<close>

definition position :: "nat \<Rightarrow> int \<Rightarrow> py_error + nat" where
  "position n i =
     (if 0 \<le> i \<and> i < int n then Inr (nat i)
      else if i < 0 \<and> 0 \<le> i + int n then Inr (nat (i + int n))
      else Inl IndexError)"

definition getitem :: "'a list \<Rightarrow> int \<Rightarrow> py_error + 'a" where
  "getitem xs i = (case position (length xs) i of Inl e \<Rightarrow> Inl e | Inr k \<Rightarrow> Inr (xs ! k))"

text \<open>
  \<^verbatim>\<open>
  def approve_last_code_requests(datasites):
      for datasite in datasites.values():
          datasite.code[-1].status.approve()
  \<close>
  The loop mutates the request objects in place. The model returns the registry as the
  loop leaves it, also when it raises: the sites before the failing one stay approved.
  The parameter \<open>approve\<close> is the framework's \<^verbatim>\<open>status.approve()\<close> on a request.
\<close>

fun approve_last_code_requests ::
  "(request \<Rightarrow> py_error + request) \<Rightarrow> registry \<Rightarrow> (py_error + unit) \<times> registry"
where
  "approve_last_code_requests approve [] = (Inr (), [])"
| "approve_last_code_requests approve ((name, datasite) # rest) =
     (case position (length (code datasite)) (- 1) of
        Inl e \<Rightarrow> (Inl e, (name, datasite) # rest)
      | Inr k \<Rightarrow>
          (case approve (code datasite ! k) of
             Inl e \<Rightarrow> (Inl e, (name, datasite) # rest)
           | Inr r \<Rightarrow>
               (let datasite' = datasite\<lparr>code := (code datasite)[k := r]\<rparr>;
                    (res, rest') = approve_last_code_requests approve rest
                in (res, (name, datasite') # rest'))))"

text \<open>
  \<^verbatim>\<open>
  def requests_accepted(datasites):
      return [dsite.code[-1].status.approved for dsite in datasites.values()]
  \<close>
  The comprehension only reads; the registry is returned as it was received.
\<close>

fun accepted_list :: "registry \<Rightarrow> py_error + bool list" where
  "accepted_list [] = Inr []"
| "accepted_list ((name, dsite) # rest) =
     (case getitem (code dsite) (- 1) of
        Inl e \<Rightarrow> Inl e
      | Inr r \<Rightarrow>
          (case accepted_list rest of
             Inl e \<Rightarrow> Inl e
           | Inr bs \<Rightarrow> Inr (approved (status r) # bs)))"

definition requests_accepted :: "registry \<Rightarrow> (py_error + bool list) \<times> registry" where
  "requests_accepted datasites = (accepted_list datasites, datasites)"

text \<open>
  \<^verbatim>\<open>
  def check_status_last_code_requests(datasites):
      for name, datasite in datasites.items():
          print(f"Datasite: {name}")
          display(datasite.code[-1].status.get_status_message())
  \<close>
  The output is the list of what was printed and displayed, in order. The parameter
  \<open>get_status_message\<close> is the framework's call on the status of a request.
\<close>

datatype 'msg emitted = Printed string | Displayed 'msg

fun check_status_last_code_requests ::
  "(status \<Rightarrow> py_error + 'msg) \<Rightarrow> registry \<Rightarrow> 'msg emitted list
     \<Rightarrow> (py_error + unit) \<times> 'msg emitted list"
where
  "check_status_last_code_requests get_status_message [] out = (Inr (), out)"
| "check_status_last_code_requests get_status_message ((name, datasite) # rest) out =
     (let out1 = out @ [Printed (''Datasite: '' @ name)]
      in case getitem (code datasite) (- 1) of
           Inl e \<Rightarrow> (Inl e, out1)
         | Inr r \<Rightarrow>
             (case get_status_message (status r) of
                Inl e \<Rightarrow> (Inl e, out1)
              | Inr message \<Rightarrow>
                  check_status_last_code_requests get_status_message rest
                    (out1 @ [Displayed message])))"

subsection \<open>\<^verbatim>\<open>BytesIO\<close> buffers and joblib\<close>

text \<open>
  A \<^verbatim>\<open>BytesIO\<close> is its contents and its stream position. The type holds the open
  buffers only: on a closed buffer \<^verbatim>\<open>getbuffer()\<close> and \<^verbatim>\<open>seek\<close> raise \<^verbatim>\<open>ValueError\<close>,
  and a closed buffer is not a value of the model. \<^verbatim>\<open>getbuffer()\<close> gives a view of the
  whole contents and does not move the position; \<^verbatim>\<open>write\<close> of no bytes changes nothing,
  and \<^verbatim>\<open>write\<close> of some bytes overwrites from the position (padding with zero bytes when
  the position is past the end) and advances it.
\<close>

type_synonym byte = "8 word"

record bytesio =
  data :: "byte list"
  pos :: nat

definition BytesIO :: bytesio where
  "BytesIO = \<lparr>data = [], pos = 0\<rparr>"

definition seek :: "nat \<Rightarrow> bytesio \<Rightarrow> bytesio" where
  "seek offset b = b\<lparr>pos := offset\<rparr>"

definition getbuffer :: "bytesio \<Rightarrow> byte list \<times> bytesio" where
  "getbuffer b = (data b, b)"

definition write_bytes :: "byte list \<Rightarrow> bytesio \<Rightarrow> bytesio" where
  "write_bytes bs b =
     (if bs = [] then b
      else b\<lparr>data := take (pos b) (data b) @ replicate (pos b - length (data b)) 0 @ bs
                    @ drop (pos b + length bs) (data b),
            pos := pos b + length bs\<rparr>)"

text \<open>
  joblib is an external library. Its serialisation format is a parameter: \<open>pickle\<close> gives
  the bytes \<^verbatim>\<open>joblib.dump\<close> writes for an estimator, and \<open>unpickle\<close>, given the bytes from
  the stream position to the end, gives what \<^verbatim>\<open>joblib.load\<close> returns or raises together
  with the number of bytes it consumed.
\<close>

definition joblib_dump :: "('m \<Rightarrow> byte list) \<Rightarrow> 'm \<Rightarrow> bytesio \<Rightarrow> bytesio" where
  "joblib_dump pickle model b = write_bytes (pickle model) b"

definition joblib_load ::
  "(byte list \<Rightarrow> (py_error + 'm) \<times> nat) \<Rightarrow> bytesio \<Rightarrow> (py_error + 'm) \<times> bytesio" where
  "joblib_load unpickle b =
     (let rest = drop (pos b) (data b);
          (r, n) = unpickle rest
      in (r, b\<lparr>pos := pos b + min n (length rest)\<rparr>))"

subsection \<open>Paths (\<^verbatim>\<open>pathlib\<close>, POSIX flavour)\<close>

text \<open>
  \<^verbatim>\<open>Path(s)\<close> splits off the root (\<^verbatim>\<open>/\<close>, or \<^verbatim>\<open>//\<close> for exactly two leading slashes)
  and keeps the components between slashes that are neither empty nor \<^verbatim>\<open>.\<close>. The
  operator \<^verbatim>\<open>/\<close> appends the components of its right operand, unless that operand is
  absolute: then it replaces the left one. \<^verbatim>\<open>str\<close> of a path joins root and components,
  and is \<^verbatim>\<open>.\<close> for the empty path.
\<close>

record path =
  anchor :: string
  parts :: "string list"

fun split_sep :: "string \<Rightarrow> string list" where
  "split_sep [] = [[]]"
| "split_sep (c # cs) =
     (if c = CHR ''/'' then [] # split_sep cs
      else (case split_sep cs of [] \<Rightarrow> [[c]] | w # ws \<Rightarrow> (c # w) # ws))"

fun join_sep :: "string list \<Rightarrow> string" where
  "join_sep [] = []"
| "join_sep [x] = x"
| "join_sep (x # y # ys) = x @ ''/'' @ join_sep (y # ys)"

definition splitroot :: "string \<Rightarrow> string \<times> string" where
  "splitroot p =
     (if take 1 p \<noteq> ''/'' then ('''', p)
      else if take 1 (drop 1 p) \<noteq> ''/'' \<or> take 1 (drop 2 p) = ''/'' then (''/'', drop 1 p)
      else (''//'', drop 2 p))"

definition Path :: "string \<Rightarrow> path" where
  "Path s =
     (let (slashes, rel) = splitroot s
      in \<lparr>anchor = slashes, parts = filter (\<lambda>x. x \<noteq> [] \<and> x \<noteq> ''.'') (split_sep rel)\<rparr>)"

definition joinpath :: "path \<Rightarrow> string \<Rightarrow> path" where
  "joinpath p s = (let q = Path s in if anchor q \<noteq> [] then q else p\<lparr>parts := parts p @ parts q\<rparr>)"

definition path_str :: "path \<Rightarrow> string" where
  "path_str p =
     (if anchor p = [] \<and> parts p = [] then ''.'' else anchor p @ join_sep (parts p))"

text \<open>
  The operating system receives a path as the bytes of its UTF-8 encoding: one byte for
  a code point below 128, two for the others the model has.
\<close>

definition utf8_length :: "string \<Rightarrow> nat" where
  "utf8_length s = length s + length (filter (\<lambda>c. 128 \<le> (of_char c :: nat)) s)"

subsection \<open>The file system\<close>

text \<open>
  The file system maps a path to a directory or to a regular file with its bytes. A
  path without components (the working directory, or the root) is a directory that
  always exists. Every component is an entry name: the model has no symbolic links and
  does not interpret \<^verbatim>\<open>..\<close>, so it describes a disk without links and paths without
  \<^verbatim>\<open>..\<close>; permissions and disk space are not modelled (the process may create and
  write).

  A system call first takes the path as a string: Python raises \<^verbatim>\<open>ValueError\<close> when it
  holds a NUL character, and Linux gives \<^verbatim>\<open>OSError\<close> (file name too long) when it has
  \<open>PATH_MAX\<close> bytes or more. Then \<open>walk\<close> resolves the directories above the path from
  the top: a component of more than \<open>NAME_MAX\<close> bytes gives \<^verbatim>\<open>OSError\<close>, a missing
  directory \<^verbatim>\<open>FileNotFoundError\<close>, a regular file in its place
  \<^verbatim>\<open>NotADirectoryError\<close>. \<open>lookup\<close> is what the call finds at the path itself.
\<close>

datatype node = Dir | File "byte list"

type_synonym filesystem = "path \<Rightarrow> node option"

definition NAME_MAX :: nat where
  "NAME_MAX = 255"

definition PATH_MAX :: nat where
  "PATH_MAX = 4096"

fun walk :: "filesystem \<Rightarrow> string \<Rightarrow> string list \<Rightarrow> string list \<Rightarrow> py_error option" where
  "walk fs a seen [] = None"
| "walk fs a seen (c # cs) =
     (if NAME_MAX < utf8_length c then Some OSError
      else case fs \<lparr>anchor = a, parts = seen @ [c]\<rparr> of
             None \<Rightarrow> Some FileNotFoundError
           | Some (File _) \<Rightarrow> Some NotADirectoryError
           | Some Dir \<Rightarrow> walk fs a (seen @ [c]) cs)"

definition parent_error :: "filesystem \<Rightarrow> path \<Rightarrow> py_error option" where
  "parent_error fs p = walk fs (anchor p) [] (butlast (parts p))"

definition lookup :: "filesystem \<Rightarrow> path \<Rightarrow> py_error + node option" where
  "lookup fs p =
     (if CHR 0x00 \<in> set (path_str p) then Inl ValueError
      else if PATH_MAX \<le> utf8_length (path_str p) then Inl OSError
      else case parent_error fs p of
             Some e \<Rightarrow> Inl e
           | None \<Rightarrow>
               if parts p = [] then Inr (Some Dir)
               else if NAME_MAX < utf8_length (last (parts p)) then Inl OSError
               else Inr (fs p))"

definition is_dir :: "filesystem \<Rightarrow> path \<Rightarrow> bool" where
  "is_dir fs p = (lookup fs p = Inr (Some Dir))"

text \<open>
  \<^verbatim>\<open>os.mkdir(p)\<close> creates one directory; \<^verbatim>\<open>Path.mkdir(exist_ok=True)\<close> calls it with
  \<^verbatim>\<open>parents=False\<close>: a \<^verbatim>\<open>FileNotFoundError\<close> is raised again, a \<^verbatim>\<open>ValueError\<close> is not
  caught, and any other error is ignored exactly when the path is a directory.
\<close>

definition os_mkdir :: "path \<Rightarrow> filesystem \<Rightarrow> py_error + filesystem" where
  "os_mkdir p fs =
     (case lookup fs p of
        Inl e \<Rightarrow> Inl e
      | Inr (Some n) \<Rightarrow> Inl FileExistsError
      | Inr None \<Rightarrow> Inr (fs(p \<mapsto> Dir)))"

definition mkdir_exist_ok :: "path \<Rightarrow> filesystem \<Rightarrow> py_error + filesystem" where
  "mkdir_exist_ok p fs =
     (case os_mkdir p fs of
        Inr fs' \<Rightarrow> Inr fs'
      | Inl e \<Rightarrow>
          if e = FileNotFoundError \<or> e = ValueError then Inl e
          else if is_dir fs p then Inr fs
          else Inl e)"

text \<open>
  \<^verbatim>\<open>open(p, "wb")\<close> creates the file or truncates it; \<^verbatim>\<open>write\<close> on the open file
  appends; \<^verbatim>\<open>open(p, "rb")\<close> gives the bytes of an existing regular file.
\<close>

definition open_wb :: "path \<Rightarrow> filesystem \<Rightarrow> py_error + filesystem" where
  "open_wb p fs =
     (case lookup fs p of
        Inl e \<Rightarrow> Inl e
      | Inr (Some Dir) \<Rightarrow> Inl IsADirectoryError
      | Inr (Some (File old)) \<Rightarrow> Inr (fs(p \<mapsto> File []))
      | Inr None \<Rightarrow> Inr (fs(p \<mapsto> File [])))"

definition file_write :: "path \<Rightarrow> byte list \<Rightarrow> filesystem \<Rightarrow> filesystem" where
  "file_write p bs fs = (case fs p of Some (File old) \<Rightarrow> fs(p \<mapsto> File (old @ bs)) | _ \<Rightarrow> fs)"

definition open_rb :: "path \<Rightarrow> filesystem \<Rightarrow> py_error + byte list" where
  "open_rb p fs =
     (case lookup fs p of
        Inl e \<Rightarrow> Inl e
      | Inr None \<Rightarrow> Inl FileNotFoundError
      | Inr (Some Dir) \<Rightarrow> Inl IsADirectoryError
      | Inr (Some (File bs)) \<Rightarrow> Inr bs)"

subsection \<open>Model persistence helpers\<close>

text \<open>
  \<^verbatim>\<open>
  def dump_model(datasite_name, model_buffer, root="./models"):
      model_folder = Path(root)
      model_folder.mkdir(exist_ok=True)
      filename = get_model_file(datasite_name=datasite_name)
      filepath = model_folder / filename
      with open(filepath, "wb") as model_file:
          model_file.write(model_buffer.getbuffer())
      return f"Model saved in {filepath}"
  \<close>
  The result is what is returned or raised, the file system and the buffer after the call.
  The parameter \<^verbatim>\<open>root\<close> is written \<open>root_dir\<close>, as \<open>root\<close> is a constant of HOL.
\<close>

definition dump_model ::
  "string \<Rightarrow> bytesio \<Rightarrow> string \<Rightarrow> filesystem \<Rightarrow> (py_error + string) \<times> filesystem \<times> bytesio" where
  "dump_model datasite_name model_buffer root_dir fs =
     (let model_folder = Path root_dir
      in case mkdir_exist_ok model_folder fs of
           Inl e \<Rightarrow> (Inl e, fs, model_buffer)
         | Inr fs1 \<Rightarrow>
             (let filename = get_model_file datasite_name;
                  filepath = joinpath model_folder filename
              in case open_wb filepath fs1 of
                   Inl e \<Rightarrow> (Inl e, fs1, model_buffer)
                 | Inr fs2 \<Rightarrow>
                     (let (view, buffer') = getbuffer model_buffer;
                          fs3 = file_write filepath view fs2
                      in (Inr (''Model saved in '' @ path_str filepath), fs3, buffer'))))"

text \<open>
  \<^verbatim>\<open>
  def load_model(model_filepath):
      with open(model_filepath, "rb") as model_file:
          return joblib.load(model_file)

  def load_model_from_buffer(model_buffer):
      model_buffer.seek(0)
      return joblib.load(model_buffer)
  \<close>
  \<open>load_model\<close> is the call with a \<^verbatim>\<open>Path\<close> argument, as \<^verbatim>\<open>load_models\<close> makes it with
  the path it builds. A call with a \<^verbatim>\<open>str\<close> hands the string to \<^verbatim>\<open>open\<close> unparsed and is
  not modelled.
\<close>

definition load_model ::
  "(byte list \<Rightarrow> (py_error + 'm) \<times> nat) \<Rightarrow> path \<Rightarrow> filesystem \<Rightarrow> py_error + 'm" where
  "load_model unpickle model_filepath fs =
     (case open_rb model_filepath fs of
        Inl e \<Rightarrow> Inl e
      | Inr bs \<Rightarrow> fst (unpickle bs))"

definition load_model_from_buffer ::
  "(byte list \<Rightarrow> (py_error + 'm) \<times> nat) \<Rightarrow> bytesio \<Rightarrow> (py_error + 'm) \<times> bytesio" where
  "load_model_from_buffer unpickle model_buffer = joblib_load unpickle (seek 0 model_buffer)"

text \<open>
  The buffer that \<^verbatim>\<open>serialize_and_upload\<close> builds before it wraps and sends it:
  \<^verbatim>\<open>
      model_buffer = BytesIO()
      joblib.dump(model, model_buffer)
      model_buffer.seek(0)
  \<close>
\<close>

definition serialize :: "('m \<Rightarrow> byte list) \<Rightarrow> 'm \<Rightarrow> bytesio" where
  "serialize pickle model = seek 0 (joblib_dump pickle model BytesIO)"

subsection \<open>Plotting helpers\<close>

text \<open>
  matplotlib and scikit-learn are external. A figure of confusion matrices is modelled by
  what the helper puts on it: the grid of subplots made by \<^verbatim>\<open>plt.subplots(2, 2)\<close>, each
  with the matrix it shows (none while it is blank), its title and its axis labels; the
  texts added to the figure; the super title; and the image the shared colour bar is made
  from. The helper labels two classes, so a confusion matrix is a two by two array of
  counts, as \<^verbatim>\<open>sklearn.metrics.confusion_matrix\<close> returns it for two classes (an array of
  64-bit integers); an array of another shape, which the display cannot label, is not a
  value of the model. matplotlib reads a text with dollar signs as a formula and may
  refuse it; the model keeps names and titles as plain text, and the claims below are about
  names and titles without a dollar sign.
  \<^verbatim>\<open>
  def plot_all_confusion_matrices(cms, title=None):
      fig, axes = plt.subplots(2, 2, figsize=(10, 8), sharey="row")
      for coords, (name, cf_matrix) in zip(product(range(2), repeat=2), cms.items()):
          disp = ConfusionMatrixDisplay(cf_matrix, display_labels=["Absence", "Presence"])
          disp.plot(ax=axes[coords], xticks_rotation=45)
          disp.ax_.set_title(name)
          disp.im_.colorbar.remove()
          disp.ax_.set_xlabel("")
          if coords[1] != 0:
              disp.ax_.set_ylabel("")
      fig.text(0.4, -0.05, "Predicted label", ha="left")
      plt.tight_layout()
      if title:
          plt.suptitle(title, y=1.05)
      fig.colorbar(disp.im_, ax=axes)
      return fig
  \<close>
  \<^verbatim>\<open>zip\<close> stops at the shorter of the four grid coordinates and the matrices. The
  variable \<^verbatim>\<open>disp\<close> is bound by the loop body only: after a loop that never ran, reading
  it raises \<^verbatim>\<open>UnboundLocalError\<close>.
\<close>

type_synonym matrix = "(64 word \<times> 64 word) \<times> (64 word \<times> 64 word)"

record axes =
  image :: "matrix option"
  ax_title :: string
  xlabel :: string
  ylabel :: string

record figure =
  grid :: "((nat \<times> nat) \<times> axes) list"
  texts :: "string list"
  suptitle :: "string option"
  colorbar :: "matrix option"

definition blank_axes :: axes where
  "blank_axes = \<lparr>image = None, ax_title = [], xlabel = [], ylabel = []\<rparr>"

definition subplots :: "nat \<Rightarrow> nat \<Rightarrow> figure" where
  "subplots nrows ncols =
     \<lparr>grid = map (\<lambda>c. (c, blank_axes)) (List.product [0..<nrows] [0..<ncols]),
      texts = [], suptitle = None, colorbar = None\<rparr>"

definition draw :: "nat \<times> nat \<Rightarrow> string \<Rightarrow> matrix \<Rightarrow> axes" where
  "draw coords name cf_matrix =
     \<lparr>image = Some cf_matrix, ax_title = name, xlabel = [],
      ylabel = (if snd coords \<noteq> 0 then [] else ''True label'')\<rparr>"

fun plot_loop ::
  "((nat \<times> nat) \<times> string \<times> matrix) list \<Rightarrow> figure \<times> matrix option \<Rightarrow> figure \<times> matrix option"
where
  "plot_loop [] st = st"
| "plot_loop ((coords, name, cf_matrix) # rest) (fig, disp) =
     plot_loop rest
       (fig\<lparr>grid := map (\<lambda>(c, a). if c = coords then (c, draw coords name cf_matrix) else (c, a))
                      (grid fig)\<rparr>,
        Some cf_matrix)"

definition plot_all_confusion_matrices ::
  "(string \<times> matrix) list \<Rightarrow> string option \<Rightarrow> py_error + figure" where
  "plot_all_confusion_matrices cms title =
     (let (fig, disp) = plot_loop (zip (List.product [0..<2] [0..<2]) cms) (subplots 2 2, None);
          fig1 = fig\<lparr>texts := texts fig @ [''Predicted label'']\<rparr>;
          fig2 = (case title of
                    None \<Rightarrow> fig1
                  | Some t \<Rightarrow> if t = [] then fig1 else fig1\<lparr>suptitle := Some t\<rparr>)
      in case disp of
           None \<Rightarrow> Inl UnboundLocalError
         | Some im \<Rightarrow> Inr (fig2\<lparr>colorbar := Some im\<rparr>))"

text \<open>
  \<^verbatim>\<open>
  def plot_fl_metrics(fl_metrics, title="Federated Learning Experiment Metrics"):
      plt.figure(figsize=(10, 6))
      for question, metrics in fl_metrics.items():
          epochs = list(range(1, len(metrics) + 1))
          accuracy = [m["accuracy"] for m in metrics]
          plt.plot(epochs, accuracy, marker='o', linestyle='-', label=question)
      plt.title(title, fontsize=14)
      plt.xlabel('Epoch', fontsize=12)
      plt.ylabel('Accuracy', fontsize=12)
      plt.xticks(epochs)
      plt.ylim(0, 1)
      plt.grid(True, linestyle='--', alpha=0.6)
      plt.legend()
      plt.tight_layout()
      plt.show()
  \<close>
  The chart is the current pyplot figure: its lines, title, labels, ticks and limits. The
  accuracy values are not computed with; their type is a parameter. A metrics dictionary
  without the key \<^verbatim>\<open>accuracy\<close> raises \<^verbatim>\<open>KeyError\<close>; \<^verbatim>\<open>epochs\<close> is bound by the loop body
  only. The result is what is returned or raised and the chart as the call leaves it.
\<close>

record 'v line =
  line_x :: "int list"
  line_y :: "'v list"
  line_label :: string

record 'v chart =
  lines :: "'v line list"
  chart_title :: string
  chart_xlabel :: string
  chart_ylabel :: string
  xticks :: "int list option"
  ylim :: "(int \<times> int) option"
  grid_on :: bool
  legend_on :: bool
  displayed :: bool

definition new_chart :: "'v chart" where
  "new_chart = \<lparr>lines = [], chart_title = [], chart_xlabel = [], chart_ylabel = [],
     xticks = None, ylim = None, grid_on = False, legend_on = False, displayed = False\<rparr>"

fun accuracies :: "(string \<rightharpoonup> 'v) list \<Rightarrow> py_error + 'v list" where
  "accuracies [] = Inr []"
| "accuracies (m # ms) =
     (case m ''accuracy'' of
        None \<Rightarrow> Inl KeyError
      | Some a \<Rightarrow> (case accuracies ms of Inl e \<Rightarrow> Inl e | Inr as \<Rightarrow> Inr (a # as)))"

fun plot_questions ::
  "(string \<times> (string \<rightharpoonup> 'v) list) list \<Rightarrow> 'v chart \<times> int list option
     \<Rightarrow> (py_error + unit) \<times> 'v chart \<times> int list option"
where
  "plot_questions [] (ch, epochs) = (Inr (), ch, epochs)"
| "plot_questions ((question, metrics) # rest) (ch, epochs) =
     (let epochs' = [1..int (length metrics)]
      in case accuracies metrics of
           Inl e \<Rightarrow> (Inl e, ch, Some epochs')
         | Inr accuracy \<Rightarrow>
             plot_questions rest
               (ch\<lparr>lines := lines ch
                    @ [\<lparr>line_x = epochs', line_y = accuracy, line_label = question\<rparr>]\<rparr>,
                Some epochs'))"

definition plot_fl_metrics ::
  "(string \<times> (string \<rightharpoonup> 'v) list) list \<Rightarrow> string \<Rightarrow> (py_error + unit) \<times> 'v chart" where
  "plot_fl_metrics fl_metrics title =
     (case plot_questions fl_metrics (new_chart, None) of
        (Inl e, ch, epochs) \<Rightarrow> (Inl e, ch)
      | (Inr u, ch, epochs) \<Rightarrow>
          (let ch1 = ch\<lparr>chart_title := title, chart_xlabel := ''Epoch'',
                        chart_ylabel := ''Accuracy''\<rparr>
           in case epochs of
                None \<Rightarrow> (Inl UnboundLocalError, ch1)
              | Some ticks \<Rightarrow>
                  (Inr (), ch1\<lparr>xticks := Some ticks, ylim := Some (0, 1), grid_on := True,
                               legend_on := True, displayed := True\<rparr>)))"

text \<open>The accuracy series the loop plots for one question.\<close>

definition series :: "string \<times> (string \<rightharpoonup> 'v) list \<Rightarrow> 'v line" where
  "series q = \<lparr>line_x = [1..int (length (snd q))],
               line_y = map (\<lambda>m. the (m ''accuracy'')) (snd q), line_label = fst q\<rparr>"

subsection \<open>Example values\<close>

definition site_a :: datasite where
  "site_a = \<lparr>code = [\<lparr>request_name = ''train'', status = Rejected\<rparr>,
                      \<lparr>request_name = ''train'', status = Approved\<rparr>]\<rparr>"

definition site_b :: datasite where
  "site_b = \<lparr>code = [\<lparr>request_name = ''train'', status = Pending\<rparr>]\<rparr>"

definition site_none :: datasite where
  "site_none = \<lparr>code = []\<rparr>"

definition example_buffer :: bytesio where
  "example_buffer = \<lparr>data = [1, 2, 3], pos = 3\<rparr>"

text \<open>
  A small serialisation format to run the persistence helpers on: a decision stump is its
  threshold, stored as one byte between a start and a stop byte.
\<close>

definition stump_pickle :: "nat \<Rightarrow> byte list" where
  "stump_pickle threshold = [80, of_nat threshold, 46]"

definition stump_unpickle :: "byte list \<Rightarrow> (py_error + nat) \<times> nat" where
  "stump_unpickle bs =
     (case bs of
        a # t # z # rest \<Rightarrow> if a = 80 \<and> z = 46 then (Inr (unat t), 3) else (Inl LoadError, 1)
      | _ \<Rightarrow> (Inl LoadError, length bs))"

definition stump_predict :: "nat \<Rightarrow> nat \<Rightarrow> bool" where
  "stump_predict threshold x = (threshold \<le> x)"

definition cm1 :: matrix where "cm1 = ((50, 2), (3, 45))"

definition cm2 :: matrix where "cm2 = ((40, 12), (7, 41))"

definition cm3 :: matrix where "cm3 = ((48, 4), (9, 39))"

definition cm4 :: matrix where "cm4 = ((44, 8), (5, 43))"

definition example_metrics :: "(string \<times> (string \<rightharpoonup> real) list) list" where
  "example_metrics =
     [(''q1'', [[''accuracy'' \<mapsto> 0.61], [''accuracy'' \<mapsto> 0.7], [''accuracy'' \<mapsto> 0.74]]),
      (''q2'', [[''accuracy'' \<mapsto> 0.58]])]"

section \<open>Properties\<close>

subsection \<open>Helper lemmas: strings and file names\<close>

lemma replace_single_char:
  "replace [a] new s = concat (map (\<lambda>c. if c = a then new else [c]) s)"
  by (induction s) auto

lemma replace_dot_removes: "replace ''.'' '''' s = filter (\<lambda>c. c \<noteq> CHR ''.'') s"
  by (induction s) (auto simp: replace_single_char)

lemma replace_space_underscore:
  "replace '' '' ''_'' s = map (\<lambda>c. if c = CHR '' '' then CHR ''_'' else c) s"
  by (induction s) (auto simp: replace_single_char)

lemma get_model_file_map:
  "get_model_file name =
     map (\<lambda>c. lower_char (if c = CHR '' '' then CHR ''_'' else c)) (filter (\<lambda>c. c \<noteq> CHR ''.'') name)
     @ ''_model.jbl''"
  by (simp add: get_model_file_def lower_def replace_dot_removes replace_space_underscore)

lemmas lower_eval = lower_char_def char_of_def bit_Suc_0_iff





lemma get_model_file_site: "get_model_file ''site'' = ''site_model.jbl''"
  by (simp add: get_model_file_map lower_eval)


lemma get_model_file_site_a: "get_model_file ''Site A'' = ''site_a_model.jbl''"
  by (simp add: get_model_file_map lower_eval)

lemma get_model_file_site_a_lower: "get_model_file ''site_a'' = ''site_a_model.jbl''"
  by (simp add: get_model_file_map lower_eval)

subsection \<open>Helper lemmas: indexing and the request loops\<close>

lemma position_last: "0 < n \<Longrightarrow> position n (- 1) = Inr (n - 1)"
  by (auto simp: position_def)

lemma position_last_empty: "position 0 (- 1) = Inl IndexError"
  by (simp add: position_def)

lemma getitem_last: "xs \<noteq> [] \<Longrightarrow> getitem xs (- 1) = Inr (last xs)"
  by (simp add: getitem_def position_last last_conv_nth)

lemma getitem_last_empty: "getitem [] (- 1) = Inl IndexError"
  by (simp add: getitem_def position_last_empty)

lemma accepted_list_all:
  "\<forall>s \<in> set sites. code (snd s) \<noteq> [] \<Longrightarrow>
   accepted_list sites = Inr (map (\<lambda>s. approved (status (last (code (snd s))))) sites)"
  by (induction sites) (auto simp: getitem_last)

lemma approve_never_returns:
  "\<exists>s \<in> set sites. code (snd s) = [] \<Longrightarrow>
   \<exists>e. fst (approve_last_code_requests approve sites) = Inl e"
proof (induction sites)
  case Nil
  then show ?case by simp
next
  case (Cons s sites)
  obtain name d where s: "s = (name, d)" by (cases s)
  show ?case
  proof (cases "code d = []")
    case True
    then show ?thesis by (simp add: s position_last_empty)
  next
    case False
    with Cons.prems s have "\<exists>s \<in> set sites. code (snd s) = []" by auto
    then obtain e where "fst (approve_last_code_requests approve sites) = Inl e"
      using Cons.IH by blast
    with False show ?thesis
      by (auto simp: s position_last split: sum.splits prod.splits)
  qed
qed

lemma approve_raises:
  "\<exists>s \<in> set sites. code (snd s) = [] \<Longrightarrow>
   \<forall>s \<in> set (takeWhile (\<lambda>s. code (snd s) \<noteq> []) sites).
      \<exists>r. approve (last (code (snd s))) = Inr r \<Longrightarrow>
   fst (approve_last_code_requests approve sites) = Inl IndexError"
proof (induction sites)
  case Nil
  then show ?case by simp
next
  case (Cons s sites)
  obtain name d where s: "s = (name, d)" by (cases s)
  show ?case
  proof (cases "code d = []")
    case True
    then show ?thesis by (simp add: s position_last_empty)
  next
    case False
    with Cons.prems(1) s have "\<exists>s \<in> set sites. code (snd s) = []" by auto
    moreover from False Cons.prems(2) s
    have "\<forall>s \<in> set (takeWhile (\<lambda>s. code (snd s) \<noteq> []) sites).
        \<exists>r. approve (last (code (snd s))) = Inr r"
      by simp
    ultimately have rest: "fst (approve_last_code_requests approve sites) = Inl IndexError"
      by (rule Cons.IH)
    from False Cons.prems(2) s obtain r where "approve (last (code d)) = Inr r"
      by auto
    then have "approve (code d ! (length (code d) - 1)) = Inr r"
      using False by (simp add: last_conv_nth)
    with False rest show ?thesis
      by (auto simp: s position_last split: prod.splits)
  qed
qed

lemma check_never_returns:
  "\<exists>s \<in> set sites. code (snd s) = [] \<Longrightarrow>
   \<exists>e. fst (check_status_last_code_requests msg sites out) = Inl e"
proof (induction sites arbitrary: out)
  case Nil
  then show ?case by simp
next
  case (Cons s sites)
  obtain name d where s: "s = (name, d)" by (cases s)
  show ?case
  proof (cases "code d = []")
    case True
    then show ?thesis by (simp add: s getitem_last_empty)
  next
    case False
    with Cons.prems s have "\<exists>s \<in> set sites. code (snd s) = []" by auto
    then have "\<And>out. \<exists>e. fst (check_status_last_code_requests msg sites out) = Inl e"
      by (rule Cons.IH)
    with False show ?thesis
      by (cases "msg (status (last (code d)))") (simp_all add: s getitem_last Let_def)
  qed
qed

lemma check_raises:
  "\<exists>s \<in> set sites. code (snd s) = [] \<Longrightarrow>
   \<forall>s \<in> set (takeWhile (\<lambda>s. code (snd s) \<noteq> []) sites).
      \<exists>m. msg (status (last (code (snd s)))) = Inr m \<Longrightarrow>
   fst (check_status_last_code_requests msg sites out) = Inl IndexError"
proof (induction sites arbitrary: out)
  case Nil
  then show ?case by simp
next
  case (Cons s sites)
  obtain name d where s: "s = (name, d)" by (cases s)
  show ?case
  proof (cases "code d = []")
    case True
    then show ?thesis by (simp add: s getitem_last_empty)
  next
    case False
    with Cons.prems(1) s have "\<exists>s \<in> set sites. code (snd s) = []" by auto
    moreover from False Cons.prems(2) s
    have "\<forall>s \<in> set (takeWhile (\<lambda>s. code (snd s) \<noteq> []) sites).
        \<exists>m. msg (status (last (code (snd s)))) = Inr m"
      by simp
    ultimately
    have rest: "\<And>out. fst (check_status_last_code_requests msg sites out) = Inl IndexError"
      by (rule Cons.IH)
    from False Cons.prems(2) s obtain m where "msg (status (last (code d))) = Inr m"
      by auto
    with False rest show ?thesis
      by (simp add: s getitem_last)
  qed
qed

subsection \<open>Helper lemmas: paths and the file system\<close>




lemma Path_models: "Path ''./models'' = \<lparr>anchor = [], parts = [''models'']\<rparr>"
  by (simp add: Path_def splitroot_def)


lemma joinpath_site:
  "joinpath \<lparr>anchor = [], parts = [''models'']\<rparr> ''site_model.jbl''
     = \<lparr>anchor = [], parts = [''models'', ''site_model.jbl'']\<rparr>"
  by (simp add: joinpath_def Path_def splitroot_def)









lemma walk_update_longer:
  "length seen + length xs < length (parts p) \<Longrightarrow> walk (fs(p \<mapsto> n)) a seen xs = walk fs a seen xs"
proof (induction xs arbitrary: seen)
  case Nil
  then show ?case by simp
next
  case (Cons x xs)
  have "\<lparr>anchor = a, parts = seen @ [x]\<rparr> \<noteq> p"
    using Cons.prems by auto
  then have look: "(fs(p \<mapsto> n)) \<lparr>anchor = a, parts = seen @ [x]\<rparr>
      = fs \<lparr>anchor = a, parts = seen @ [x]\<rparr>"
    by simp
  have rest: "walk (fs(p \<mapsto> n)) a (seen @ [x]) xs = walk fs a (seen @ [x]) xs"
    using Cons.prems by (intro Cons.IH) simp
  show ?case
    by (simp only: walk.simps look rest)
qed

lemma parent_error_update:
  "length (parts q) \<le> length (parts p) \<Longrightarrow> parent_error (fs(p \<mapsto> n)) q = parent_error fs q"
proof (cases "parts q = []")
  case True
  then show ?thesis by (simp add: parent_error_def)
next
  case False
  assume "length (parts q) \<le> length (parts p)"
  with False have "length [] + length (butlast (parts q)) < length (parts p)"
    by (cases "parts q") auto
  then show ?thesis
    unfolding parent_error_def by (rule walk_update_longer)
qed




lemma lookup_update_same:
  assumes "lookup fs p = Inr x" and "parts p \<noteq> []"
  shows "lookup (fs(p \<mapsto> n)) p = Inr (Some n)"
proof -
  have "parent_error (fs(p \<mapsto> n)) p = parent_error fs p"
    by (rule parent_error_update) simp
  with assms show ?thesis
    by (auto simp: lookup_def split: if_splits option.splits)
qed


lemmas disk_eval = lookup_def parent_error_def NAME_MAX_def PATH_MAX_def utf8_length_def
  path_str_def mkdir_exist_ok_def os_mkdir_def is_dir_def open_wb_def open_rb_def

subsection \<open>Helper lemmas: dumping and loading\<close>

lemma open_wb_truncates: "open_wb p fs = Inr fs2 \<Longrightarrow> fs2 = fs(p \<mapsto> File [])"
  by (auto simp: open_wb_def split: sum.splits option.splits node.splits)

lemma open_wb_found:
  assumes "open_wb p fs = Inr fs2"
  shows "\<exists>x. lookup fs p = Inr x \<and> parts p \<noteq> []"
proof -
  from assms obtain x where x: "lookup fs p = Inr x" and "x \<noteq> Some Dir"
    by (auto simp: open_wb_def split: sum.splits option.splits node.splits)
  then have "parts p \<noteq> []"
    by (auto simp: lookup_def split: if_splits option.splits)
  with x show ?thesis by blast
qed

lemma file_write_after_open: "file_write p bs (fs(p \<mapsto> File [])) = fs(p \<mapsto> File bs)"
  by (simp add: file_write_def)

lemma dump_model_buffer: "snd (snd (dump_model name b root_dir fs)) = b"
  by (simp add: dump_model_def getbuffer_def Let_def split: sum.splits)

lemma dump_model_pos:
  "fst (dump_model name (b\<lparr>pos := p\<rparr>) root_dir fs) = fst (dump_model name b root_dir fs)
   \<and> fst (snd (dump_model name (b\<lparr>pos := p\<rparr>) root_dir fs)) = fst (snd (dump_model name b root_dir fs))"
  by (simp add: dump_model_def getbuffer_def Let_def split: sum.splits)

lemma dump_model_success:
  assumes "dump_model name b root_dir fs = (Inr msg, fs', b')"
  shows "fs' (joinpath (Path root_dir) (get_model_file name)) = Some (File (data b))
       \<and> msg = ''Model saved in '' @ path_str (joinpath (Path root_dir) (get_model_file name))"
  using assms
  by (auto simp: dump_model_def getbuffer_def Let_def file_write_after_open
      dest!: open_wb_truncates split: sum.splits)

lemma dump_model_example:
  "dump_model ''site'' \<lparr>data = bs, pos = k\<rparr> ''./models'' Map.empty
     = (Inr ''Model saved in models/site_model.jbl'',
        [\<lparr>anchor = [], parts = [''models'']\<rparr> \<mapsto> Dir,
         \<lparr>anchor = [], parts = [''models'', ''site_model.jbl'']\<rparr> \<mapsto> File bs],
        \<lparr>data = bs, pos = k\<rparr>)"
  by (simp add: dump_model_def Path_models get_model_file_site joinpath_site getbuffer_def
      file_write_def disk_eval)

lemma joinpath_site_a:
  "joinpath \<lparr>anchor = [], parts = [''models'']\<rparr> ''site_a_model.jbl''
     = \<lparr>anchor = [], parts = [''models'', ''site_a_model.jbl'']\<rparr>"
  by (simp add: joinpath_def Path_def splitroot_def)

lemma dump_first:
  "dump_model ''Site A'' \<lparr>data = [1, 2, 3], pos = 0\<rparr> ''./models'' Map.empty
     = (Inr ''Model saved in models/site_a_model.jbl'',
        [\<lparr>anchor = [], parts = [''models'']\<rparr> \<mapsto> Dir,
         \<lparr>anchor = [], parts = [''models'', ''site_a_model.jbl'']\<rparr> \<mapsto> File [1, 2, 3]],
        \<lparr>data = [1, 2, 3], pos = 0\<rparr>)"
  by (simp add: dump_model_def Path_models get_model_file_site_a joinpath_site_a getbuffer_def
      file_write_def disk_eval)

lemma dump_second:
  "dump_model ''site_a'' \<lparr>data = [4, 5], pos = 0\<rparr> ''./models''
       [\<lparr>anchor = [], parts = [''models'']\<rparr> \<mapsto> Dir,
        \<lparr>anchor = [], parts = [''models'', ''site_a_model.jbl'']\<rparr> \<mapsto> File [1, 2, 3]]
     = (Inr ''Model saved in models/site_a_model.jbl'',
        [\<lparr>anchor = [], parts = [''models'']\<rparr> \<mapsto> Dir,
         \<lparr>anchor = [], parts = [''models'', ''site_a_model.jbl'']\<rparr> \<mapsto> File [4, 5]],
        \<lparr>data = [4, 5], pos = 0\<rparr>)"
  by (simp add: dump_model_def Path_models get_model_file_site_a_lower joinpath_site_a
      getbuffer_def file_write_def disk_eval)

lemma serialize_data: "serialize pickle model = \<lparr>data = pickle model, pos = 0\<rparr>"
  by (simp add: serialize_def joblib_dump_def write_bytes_def BytesIO_def seek_def)

lemma load_model_from_buffer_start:
  "load_model_from_buffer unpickle b =
     (fst (unpickle (data b)), b\<lparr>pos := min (snd (unpickle (data b))) (length (data b))\<rparr>)"
  by (simp add: load_model_from_buffer_def joblib_load_def seek_def Let_def split: prod.splits)

lemma joblib_load_at_end:
  "fst (joblib_load stump_unpickle \<lparr>data = stump_pickle 7, pos = 3\<rparr>) = Inl LoadError
   \<and> fst (load_model_from_buffer stump_unpickle \<lparr>data = stump_pickle 7, pos = 3\<rparr>) = Inr 7"
  by (simp add: load_model_from_buffer_start joblib_load_def stump_unpickle_def stump_pickle_def)

lemma load_after_dump:
  assumes "dump_model name b root_dir fs = (Inr msg, fs', b')"
  shows "load_model unpickle (joinpath (Path root_dir) (get_model_file name)) fs'
           = fst (unpickle (data b))"
proof -
  define filepath where "filepath = joinpath (Path root_dir) (get_model_file name)"
  from assms obtain fs1 where mk: "mkdir_exist_ok (Path root_dir) fs = Inr fs1"
    and op: "open_wb filepath fs1 = Inr (fs1(filepath \<mapsto> File []))"
    and fs': "fs' = fs1(filepath \<mapsto> File (data b))"
    by (auto simp: dump_model_def getbuffer_def Let_def file_write_after_open filepath_def
        dest!: open_wb_truncates split: sum.splits)
  from op obtain x where "lookup fs1 filepath = Inr x" and "parts filepath \<noteq> []"
    using open_wb_found by blast
  then have "lookup fs' filepath = Inr (Some (File (data b)))"
    unfolding fs' by (rule lookup_update_same)
  then show ?thesis
    by (simp add: load_model_def open_rb_def flip: filepath_def)
qed

subsection \<open>Helper lemmas: plotting\<close>

lemma coords_2x2: "List.product [0..<2] [0..<2] = [(0, 0), (0, 1), (1, 0), (1, 1)]"
  by (simp add: upt_rec)

lemma nonempty_shapes:
  assumes "cms \<noteq> []"
  obtains (one) a where "cms = [a]"
    | (two) a b where "cms = [a, b]"
    | (three) a b c where "cms = [a, b, c]"
    | (more) a b c d rest where "cms = a # b # c # d # rest"
proof (cases cms)
  case Nil
  with assms show ?thesis by simp
next
  case c1: (Cons a r1)
  show ?thesis
  proof (cases r1)
    case Nil
    with c1 one show ?thesis by simp
  next
    case c2: (Cons b r2)
    show ?thesis
    proof (cases r2)
      case Nil
      with c1 c2 two show ?thesis by simp
    next
      case c3: (Cons c r3)
      show ?thesis
      proof (cases r3)
        case Nil
        with c1 c2 c3 three show ?thesis by simp
      next
        case (Cons d r4)
        with c1 c2 c3 more show ?thesis by simp
      qed
    qed
  qed
qed

lemma plot_grid:
  assumes "cms \<noteq> []"
  shows "\<exists>fig. plot_all_confusion_matrices cms title = Inr fig
           \<and> map fst (grid fig) = [(0, 0), (0, 1), (1, 0), (1, 1)]
           \<and> map (\<lambda>s. image (snd s)) (grid fig)
               = map (\<lambda>c. Some (snd c)) (take 4 cms) @ replicate (4 - length cms) None
           \<and> map (\<lambda>s. ax_title (snd s)) (grid fig)
               = map fst (take 4 cms) @ replicate (4 - length cms) []"
  using assms
proof (cases cms rule: nonempty_shapes)
  case (one a)
  then show ?thesis
    by (cases a; cases title)
      (simp_all add: plot_all_confusion_matrices_def coords_2x2 subplots_def draw_def blank_axes_def
        Let_def eval_nat_numeral)
next
  case (two a b)
  then show ?thesis
    by (cases a; cases b; cases title)
      (simp_all add: plot_all_confusion_matrices_def coords_2x2 subplots_def draw_def blank_axes_def
        Let_def eval_nat_numeral)
next
  case (three a b c)
  then show ?thesis
    by (cases a; cases b; cases c; cases title)
      (simp_all add: plot_all_confusion_matrices_def coords_2x2 subplots_def draw_def blank_axes_def
        Let_def eval_nat_numeral)
next
  case (more a b c d rest)
  then show ?thesis
    by (cases a; cases b; cases c; cases d; cases title)
      (simp_all add: plot_all_confusion_matrices_def coords_2x2 subplots_def draw_def blank_axes_def
        Let_def eval_nat_numeral)
qed

lemma plot_empty: "plot_all_confusion_matrices [] title = Inl UnboundLocalError"
  by (simp add: plot_all_confusion_matrices_def coords_2x2 subplots_def)

lemma accuracies_all:
  "\<forall>m \<in> set ms. m ''accuracy'' \<noteq> None \<Longrightarrow>
   accuracies ms = Inr (map (\<lambda>m. the (m ''accuracy'')) ms)"
  by (induction ms) auto

lemma plot_questions_all:
  "\<forall>q \<in> set qs. \<forall>m \<in> set (snd q). m ''accuracy'' \<noteq> None \<Longrightarrow>
   plot_questions qs (ch, epochs) =
     (Inr (), ch\<lparr>lines := lines ch @ map series qs\<rparr>,
      if qs = [] then epochs else Some [1..int (length (snd (last qs)))])"
proof (induction qs arbitrary: ch epochs)
  case Nil
  then show ?case by simp
next
  case (Cons q qs)
  obtain question metrics where q: "q = (question, metrics)" by (cases q)
  have acc: "accuracies metrics = Inr (map (\<lambda>m. the (m ''accuracy'')) metrics)"
    using Cons.prems q by (intro accuracies_all) auto
  have rest: "\<forall>q \<in> set qs. \<forall>m \<in> set (snd q). m ''accuracy'' \<noteq> None"
    using Cons.prems by simp
  show ?case
    by (simp add: q acc Cons.IH [OF rest] series_def Let_def)
qed

section \<open>The claims\<close>

subsection \<open>The model file name\<close>



text \<open>
  C2. The file name is not an injective function of the site name: two distinct site
  names have the same file name, so their model files are the same file on disk. For the
  site names \<^verbatim>\<open>Site A\<close> and \<^verbatim>\<open>site_a\<close>, dumping a model for the first and then one for
  the second leaves a single model file, holding the second model.
\<close>

theorem get_model_file_not_injective:
  "(\<exists>a b. a \<noteq> b \<and> get_model_file a = get_model_file b)
   \<and> ''Site A'' \<noteq> ''site_a''
   \<and> get_model_file ''Site A'' = get_model_file ''site_a''
   \<and> fst (snd (dump_model ''site_a'' \<lparr>data = [4, 5], pos = 0\<rparr> ''./models''
          (fst (snd (dump_model ''Site A'' \<lparr>data = [1, 2, 3], pos = 0\<rparr> ''./models'' Map.empty)))))
       = [\<lparr>anchor = [], parts = [''models'']\<rparr> \<mapsto> Dir,
          \<lparr>anchor = [], parts = [''models'', ''site_a_model.jbl'']\<rparr> \<mapsto> File [4, 5]]"
proof -
  have names: "''Site A'' \<noteq> ''site_a''"
    by simp
  have same: "get_model_file ''Site A'' = get_model_file ''site_a''"
    by (simp only: get_model_file_site_a get_model_file_site_a_lower)
  have disk: "fst (snd (dump_model ''site_a'' \<lparr>data = [4, 5], pos = 0\<rparr> ''./models''
          (fst (snd (dump_model ''Site A'' \<lparr>data = [1, 2, 3], pos = 0\<rparr> ''./models'' Map.empty)))))
       = [\<lparr>anchor = [], parts = [''models'']\<rparr> \<mapsto> Dir,
          \<lparr>anchor = [], parts = [''models'', ''site_a_model.jbl'']\<rparr> \<mapsto> File [4, 5]]"
    by (simp only: dump_first dump_second fst_conv snd_conv)
  have "''Site A'' \<noteq> ''site_a'' \<and> get_model_file ''Site A'' = get_model_file ''site_a''"
    using names same by (rule conjI)
  then have ex: "\<exists>a b. a \<noteq> b \<and> get_model_file a = get_model_file b"
    by (intro exI)
  show ?thesis
    using ex names same disk by (intro conjI)
qed

subsection \<open>The request status helpers\<close>

text \<open>
  C3. When every site of the registry has at least one submitted request,
  \<open>requests_accepted\<close> returns one boolean per site, in the registry's iteration order,
  that is true exactly when the status of the site's most recent request is approved, and
  the registry is as it was before the call. On the two sites \<open>A\<close> (last request
  approved) and \<open>B\<close> (last request pending) it returns \<open>[True, False]\<close>.
\<close>

theorem requests_accepted_reads_last:
  assumes "\<forall>s \<in> set sites. code (snd s) \<noteq> []"
  shows "requests_accepted sites =
           (Inr (map (\<lambda>s. status (last (code (snd s))) = Approved) sites), sites)"
  using accepted_list_all [OF assms] by (simp add: requests_accepted_def approved_def)

theorem requests_accepted_reads_last_witness:
  "code site_a \<noteq> [] \<and> code site_b \<noteq> []
   \<and> status (last (code site_a)) = Approved \<and> status (last (code site_b)) = Pending
   \<and> requests_accepted [(''A'', site_a), (''B'', site_b)]
       = (Inr [True, False], [(''A'', site_a), (''B'', site_b)])"
  using requests_accepted_reads_last [of "[(''A'', site_a), (''B'', site_b)]"]
  by (simp add: site_a_def site_b_def)

text \<open>
  C4 (as amended). When some site of the registry has no submitted request,
  \<open>approve_last_code_requests\<close> does not return normally, and neither does
  \<open>check_status_last_code_requests\<close>: the site is not skipped, an error reaches the
  caller. The error is the \<^verbatim>\<open>IndexError\<close> of the first such site whenever the framework
  call made for each site before it, \<^verbatim>\<open>status.approve()\<close> or
  \<^verbatim>\<open>status.get_status_message()\<close>, returns normally.
\<close>

theorem empty_site_raises:
  assumes "\<exists>s \<in> set sites. code (snd s) = []"
  shows "(\<exists>e. fst (approve_last_code_requests approve sites) = Inl e)
       \<and> (\<exists>e. fst (check_status_last_code_requests get_status_message sites out) = Inl e)
       \<and> ((\<forall>s \<in> set (takeWhile (\<lambda>s. code (snd s) \<noteq> []) sites).
              \<exists>r. approve (last (code (snd s))) = Inr r)
            \<longrightarrow> fst (approve_last_code_requests approve sites) = Inl IndexError)
       \<and> ((\<forall>s \<in> set (takeWhile (\<lambda>s. code (snd s) \<noteq> []) sites).
              \<exists>m. get_status_message (status (last (code (snd s)))) = Inr m)
            \<longrightarrow> fst (check_status_last_code_requests get_status_message sites out)
                  = Inl IndexError)"
  using assms approve_never_returns [of sites approve]
    check_never_returns [of sites get_status_message out]
    approve_raises [of sites approve] check_raises [of sites get_status_message out]
  by blast

theorem empty_site_raises_witness:
  "code site_none = []
   \<and> approve_last_code_requests approve_status
         [(''B'', site_b), (''N'', site_none), (''A'', site_a)]
       = (Inl IndexError,
          [(''B'', \<lparr>code = [\<lparr>request_name = ''train'', status = Approved\<rparr>]\<rparr>),
           (''N'', site_none), (''A'', site_a)])
   \<and> check_status_last_code_requests plain_message
         [(''B'', site_b), (''N'', site_none), (''A'', site_a)] []
       = (Inl IndexError, [Printed ''Datasite: B'', Displayed Pending, Printed ''Datasite: N''])"
  using empty_site_raises [of "[(''B'', site_b), (''N'', site_none), (''A'', site_a)]"
      approve_status plain_message "[]"]
  by (simp add: site_a_def site_b_def site_none_def position_def getitem_def approve_status_def
      plain_message_def)

text \<open>
  C4 as the specification words it (an index error whenever a site is empty) fails when
  a framework call raises first. With a status object that has no \<^verbatim>\<open>approve\<close> method the
  call for the site \<open>B\<close> raises \<^verbatim>\<open>AttributeError\<close> before the empty site \<open>N\<close> is reached,
  and nothing has been approved.
\<close>

theorem approve_attribute_error_counterexample:
  "approve_last_code_requests no_approve [(''B'', site_b), (''N'', site_none)]
     = (Inl AttributeError, [(''B'', site_b), (''N'', site_none)])"
  by (simp add: site_b_def position_def no_approve_def)

subsection \<open>Dumping a model\<close>




subsection \<open>Round trips\<close>

text \<open>
  C6. Serialisation round-trips through the helpers. Let \<open>model'\<close> be the estimator that
  joblib itself gives back for the bytes it writes for \<open>model\<close>, with the same
  prediction on the input \<open>x\<close>. Then \<open>load_model_from_buffer\<close> on the serialised buffer
  returns an estimator with that prediction, and after a \<open>dump_model\<close> of a buffer holding
  these bytes that returned normally, \<open>load_model\<close> on the path written returns one too.
\<close>

theorem serialization_round_trip:
  assumes joblib: "fst (unpickle (pickle model)) = Inr model'"
    and same: "predict model' x = predict model x"
    and contents: "data b = pickle model"
    and dumped: "dump_model name b root_dir fs = (Inr msg, fs', b')"
  shows "(\<exists>m. fst (load_model_from_buffer unpickle (serialize pickle model)) = Inr m
            \<and> predict m x = predict model x)
       \<and> (\<exists>m. load_model unpickle (joinpath (Path root_dir) (get_model_file name)) fs' = Inr m
            \<and> predict m x = predict model x)"
proof -
  have "fst (load_model_from_buffer unpickle (serialize pickle model)) = Inr model'"
    using joblib by (simp add: load_model_from_buffer_start serialize_data)
  moreover have "load_model unpickle (joinpath (Path root_dir) (get_model_file name)) fs' = Inr model'"
    using load_after_dump [OF dumped, of unpickle] joblib contents by simp
  ultimately show ?thesis
    using same by simp
qed

theorem serialization_round_trip_witness:
  "fst (stump_unpickle (stump_pickle 7)) = Inr 7
   \<and> data \<lparr>data = stump_pickle 7, pos = 3\<rparr> = stump_pickle 7
   \<and> fst (dump_model ''site'' \<lparr>data = stump_pickle 7, pos = 3\<rparr> ''./models'' Map.empty)
       = Inr ''Model saved in models/site_model.jbl''
   \<and> (\<exists>m. fst (load_model_from_buffer stump_unpickle (serialize stump_pickle 7)) = Inr m
          \<and> stump_predict m 9 = stump_predict 7 9)
   \<and> (\<exists>m. load_model stump_unpickle
               (joinpath (Path ''./models'') (get_model_file ''site''))
               [\<lparr>anchor = [], parts = [''models'']\<rparr> \<mapsto> Dir,
                \<lparr>anchor = [], parts = [''models'', ''site_model.jbl'']\<rparr>
                  \<mapsto> File (stump_pickle 7)]
              = Inr m
          \<and> stump_predict m 9 = stump_predict 7 9)"
proof -
  have joblib: "fst (stump_unpickle (stump_pickle 7)) = Inr 7"
    by (simp add: stump_unpickle_def stump_pickle_def)
  have same: "stump_predict 7 9 = stump_predict 7 9" by simp
  have contents: "data \<lparr>data = stump_pickle 7, pos = 3\<rparr> = stump_pickle 7" by simp
  note dumped = dump_model_example [of "stump_pickle 7" 3]
  note round_trip = serialization_round_trip [of stump_unpickle stump_pickle 7 7 stump_predict 9,
      OF joblib same contents dumped]
  from joblib contents dumped round_trip show ?thesis
    by simp
qed

text \<open>
  C9. The result of \<open>load_model_from_buffer\<close> does not depend on the position the buffer
  is at: with the position set anywhere the call returns what it returns on the buffer as
  given, namely what joblib loads from the first byte of the contents, and a second call
  on the buffer the first one leaves returns the same again.
\<close>

theorem load_model_from_buffer_position:
  "load_model_from_buffer unpickle (b\<lparr>pos := p\<rparr>) = load_model_from_buffer unpickle b
   \<and> fst (load_model_from_buffer unpickle b) = fst (unpickle (data b))
   \<and> load_model_from_buffer unpickle (snd (load_model_from_buffer unpickle b))
       = load_model_from_buffer unpickle b"
proof -
  have rewound: "seek 0 (b\<lparr>pos := p\<rparr>) = seek 0 b" for p
    by (simp add: seek_def)
  have moved: "load_model_from_buffer unpickle (b\<lparr>pos := p\<rparr>) = load_model_from_buffer unpickle b"
    for p
    by (simp only: load_model_from_buffer_def rewound)
  have whole: "fst (load_model_from_buffer unpickle b) = fst (unpickle (data b))"
    by (simp add: load_model_from_buffer_start)
  have "snd (load_model_from_buffer unpickle b)
      = b\<lparr>pos := min (snd (unpickle (data b))) (length (data b))\<rparr>"
    by (simp add: load_model_from_buffer_start)
  then have again: "load_model_from_buffer unpickle (snd (load_model_from_buffer unpickle b))
      = load_model_from_buffer unpickle b"
    by (simp only: moved)
  from moved whole again show ?thesis
    by (intro conjI)
qed

text \<open>
  C10. \<open>dump_model\<close> leaves the buffer as it was, position and contents. What it returns
  and what it leaves on disk do not depend on the buffer's position, and whenever it
  returns normally the file at the target path holds the buffer's whole contents.
\<close>

theorem dump_model_whole_buffer:
  "snd (snd (dump_model name b root_dir fs)) = b
   \<and> fst (dump_model name (b\<lparr>pos := p\<rparr>) root_dir fs) = fst (dump_model name b root_dir fs)
   \<and> fst (snd (dump_model name (b\<lparr>pos := p\<rparr>) root_dir fs)) = fst (snd (dump_model name b root_dir fs))
   \<and> (\<forall>msg. fst (dump_model name b root_dir fs) = Inr msg \<longrightarrow>
        fst (snd (dump_model name b root_dir fs)) (joinpath (Path root_dir) (get_model_file name))
          = Some (File (data b)))"
proof -
  have "fst (snd (dump_model name b root_dir fs)) (joinpath (Path root_dir) (get_model_file name))
          = Some (File (data b))"
    if "fst (dump_model name b root_dir fs) = Inr msg" for msg
  proof -
    have "dump_model name b root_dir fs
        = (Inr msg, fst (snd (dump_model name b root_dir fs)), snd (snd (dump_model name b root_dir fs)))"
      using that by (metis prod.collapse)
    then show ?thesis
      by (rule dump_model_success [THEN conjunct1])
  qed
  then show ?thesis
    using dump_model_buffer dump_model_pos by blast
qed

theorem dump_model_whole_buffer_witness:
  "fst (dump_model ''site'' example_buffer ''./models'' Map.empty)
     = Inr ''Model saved in models/site_model.jbl''
   \<and> pos example_buffer = length (data example_buffer)
   \<and> fst (snd (dump_model ''site'' example_buffer ''./models'' Map.empty))
        \<lparr>anchor = [], parts = [''models'', ''site_model.jbl'']\<rparr> = Some (File [1, 2, 3])
   \<and> snd (snd (dump_model ''site'' example_buffer ''./models'' Map.empty)) = example_buffer"
  using dump_model_whole_buffer [of "''site''" example_buffer "''./models''" Map.empty 0]
    dump_model_example [of "[1, 2, 3]" 3]
  by (simp add: example_buffer_def Path_models get_model_file_site joinpath_site)

subsection \<open>The plotting helpers\<close>

text \<open>
  C7 (as amended). Given exactly four named two by two confusion matrices,
  \<open>plot_all_confusion_matrices\<close> returns a figure of four subplots in a two by two grid,
  each showing one matrix under its name. Given three such matrices it does not fail
  either: it returns the figure with the first three subplots, row by row, showing the
  three matrices and the fourth subplot blank. Names and title have no dollar sign.
\<close>

theorem plot_all_confusion_matrices_grid:
  assumes "length cms = 4 \<or> length cms = 3"
    and "\<forall>c \<in> set cms. CHR ''$'' \<notin> set (fst c)"
    and "\<forall>t. title = Some t \<longrightarrow> CHR ''$'' \<notin> set t"
  shows "\<exists>fig. plot_all_confusion_matrices cms title = Inr fig
           \<and> map fst (grid fig) = [(0, 0), (0, 1), (1, 0), (1, 1)]
           \<and> map (\<lambda>s. image (snd s)) (grid fig)
               = map (\<lambda>c. Some (snd c)) cms @ replicate (4 - length cms) None
           \<and> map (\<lambda>s. ax_title (snd s)) (grid fig)
               = map fst cms @ replicate (4 - length cms) []"
proof -
  from assms(1) have "cms \<noteq> []" and whole: "take 4 cms = cms"
    by auto
  from plot_grid [OF this(1), of title] show ?thesis
    by (simp only: whole)
qed

theorem plot_all_confusion_matrices_grid_witness:
  "length [(''north'', cm1), (''south'', cm2), (''east'', cm3), (''west'', cm4)] = 4
   \<and> CHR ''$'' \<notin> set ''north'' \<and> CHR ''$'' \<notin> set ''south''
   \<and> CHR ''$'' \<notin> set ''east'' \<and> CHR ''$'' \<notin> set ''west''
   \<and> CHR ''$'' \<notin> set ''Sites''
   \<and> (\<exists>fig. plot_all_confusion_matrices
               [(''north'', cm1), (''south'', cm2), (''east'', cm3), (''west'', cm4)]
               (Some ''Sites'') = Inr fig
          \<and> map fst (grid fig) = [(0, 0), (0, 1), (1, 0), (1, 1)]
          \<and> map (\<lambda>s. image (snd s)) (grid fig) = [Some cm1, Some cm2, Some cm3, Some cm4]
          \<and> map (\<lambda>s. ax_title (snd s)) (grid fig) = [''north'', ''south'', ''east'', ''west''])
   \<and> (\<exists>fig. plot_all_confusion_matrices
               [(''north'', cm1), (''south'', cm2), (''east'', cm3)] None = Inr fig
          \<and> map fst (grid fig) = [(0, 0), (0, 1), (1, 0), (1, 1)]
          \<and> map (\<lambda>s. image (snd s)) (grid fig) = [Some cm1, Some cm2, Some cm3, None]
          \<and> map (\<lambda>s. ax_title (snd s)) (grid fig) = [''north'', ''south'', ''east'', []])"
proof -
  have four: "length [(''north'', cm1), (''south'', cm2), (''east'', cm3), (''west'', cm4)] = 4
      \<or> length [(''north'', cm1), (''south'', cm2), (''east'', cm3), (''west'', cm4)] = 3"
    by simp
  have four_names:
    "\<forall>c \<in> set [(''north'', cm1), (''south'', cm2), (''east'', cm3), (''west'', cm4)].
       CHR ''$'' \<notin> set (fst c)"
    by simp
  have four_title: "\<forall>t. Some ''Sites'' = Some t \<longrightarrow> CHR ''$'' \<notin> set t"
    by simp
  have three: "length [(''north'', cm1), (''south'', cm2), (''east'', cm3)] = 4
      \<or> length [(''north'', cm1), (''south'', cm2), (''east'', cm3)] = 3"
    by simp
  have three_names:
    "\<forall>c \<in> set [(''north'', cm1), (''south'', cm2), (''east'', cm3)]. CHR ''$'' \<notin> set (fst c)"
    by simp
  have three_title: "\<forall>t. None = Some t \<longrightarrow> CHR ''$'' \<notin> set t"
    by simp
  from plot_all_confusion_matrices_grid [OF four four_names four_title]
    plot_all_confusion_matrices_grid [OF three three_names three_title]
  show ?thesis
    by (simp add: eval_nat_numeral)
qed

text \<open>
  C7 as the specification words it fails: given three matrices the helper does not raise.
  It returns the figure with three subplots drawn and the fourth blank.
\<close>

theorem plot_three_matrices_counterexample:
  "plot_all_confusion_matrices [(''north'', cm1), (''south'', cm2), (''east'', cm3)] None
     = Inr \<lparr>grid =
              [((0, 0), \<lparr>image = Some cm1, ax_title = ''north'', xlabel = [],
                         ylabel = ''True label''\<rparr>),
               ((0, 1), \<lparr>image = Some cm2, ax_title = ''south'', xlabel = [], ylabel = []\<rparr>),
               ((1, 0), \<lparr>image = Some cm3, ax_title = ''east'', xlabel = [],
                         ylabel = ''True label''\<rparr>),
               ((1, 1), \<lparr>image = None, ax_title = [], xlabel = [], ylabel = []\<rparr>)],
            texts = [''Predicted label''], suptitle = None, colorbar = Some cm3\<rparr>"
  by (simp add: plot_all_confusion_matrices_def coords_2x2 subplots_def draw_def blank_axes_def)

text \<open>
  C8 (as amended). For a metrics mapping that is not empty and whose per-epoch
  dictionaries all have an accuracy, \<open>plot_fl_metrics\<close> returns normally; it has
  plotted, for each question in order, the accuracies of its sequence against the epochs
  \<open>1\<close> to the length of that sequence; the ticks of the x axis are \<open>1\<close> to the length
  of the sequence of the last question; and the limits of the y axis are \<open>0\<close> and \<open>1\<close>.
\<close>

theorem plot_fl_metrics_ticks:
  assumes "fl_metrics \<noteq> []"
    and "\<forall>q \<in> set fl_metrics. \<forall>m \<in> set (snd q). m ''accuracy'' \<noteq> None"
  shows "fst (plot_fl_metrics fl_metrics title) = Inr ()
       \<and> lines (snd (plot_fl_metrics fl_metrics title))
           = map (\<lambda>q. \<lparr>line_x = [1..int (length (snd q))],
                        line_y = map (\<lambda>m. the (m ''accuracy'')) (snd q),
                        line_label = fst q\<rparr>) fl_metrics
       \<and> xticks (snd (plot_fl_metrics fl_metrics title))
           = Some [1..int (length (snd (last fl_metrics)))]
       \<and> ylim (snd (plot_fl_metrics fl_metrics title)) = Some (0, 1)"
  using assms
  by (simp add: plot_fl_metrics_def plot_questions_all new_chart_def series_def)

theorem plot_fl_metrics_ticks_witness:
  "example_metrics \<noteq> []
   \<and> fst (plot_fl_metrics example_metrics ''Accuracy per epoch'') = Inr ()
   \<and> lines (snd (plot_fl_metrics example_metrics ''Accuracy per epoch''))
       = [\<lparr>line_x = [1, 2, 3], line_y = [0.61, 0.7, 0.74], line_label = ''q1''\<rparr>,
          \<lparr>line_x = [1], line_y = [0.58], line_label = ''q2''\<rparr>]
   \<and> xticks (snd (plot_fl_metrics example_metrics ''Accuracy per epoch'')) = Some [1]
   \<and> ylim (snd (plot_fl_metrics example_metrics ''Accuracy per epoch'')) = Some (0, 1)"
proof -
  have nonempty: "example_metrics \<noteq> []"
    by (simp add: example_metrics_def)
  have keyed: "\<forall>q \<in> set example_metrics. \<forall>m \<in> set (snd q). m ''accuracy'' \<noteq> None"
    by (simp add: example_metrics_def del: not_None_eq)
  have upto3: "[1..3] = [1, 2, 3::int]" and upto1: "[1..1] = [1::int]"
    by (simp_all add: upto.simps)
  from plot_fl_metrics_ticks [OF nonempty keyed, of "''Accuracy per epoch''"] nonempty
  show ?thesis
    by (simp add: example_metrics_def upto3 upto1)
qed

text \<open>
  C8 as the specification words it (every metrics mapping) fails on the empty mapping:
  no question is iterated, \<^verbatim>\<open>epochs\<close> is never bound, and the call raises
  \<^verbatim>\<open>UnboundLocalError\<close> with neither the ticks nor the limits of the y axis set.
\<close>

theorem plot_fl_metrics_empty_counterexample:
  "plot_fl_metrics ([] :: (string \<times> (string \<rightharpoonup> real) list) list) ''Accuracy per epoch''
     = (Inl UnboundLocalError,
        \<lparr>lines = [], chart_title = ''Accuracy per epoch'', chart_xlabel = ''Epoch'',
         chart_ylabel = ''Accuracy'', xticks = None, ylim = None, grid_on = False,
         legend_on = False, displayed = False\<rparr>)"
  by (simp add: plot_fl_metrics_def new_chart_def)

end
